theory Spec2Isabelle
  imports Main
begin

section \<open>JavaScript values and regular expressions\<close>

text \<open>
  The repository is a set of declaration modules: TypeScript interfaces and type aliases,
  and constant tables written as JavaScript literals (arrays, object literals, two
  regular-expression literals). The constants are embedded as values of one datatype of
  JavaScript values, an object literal being the list of its \<open>key: value\<close> entries in
  source order, so that statements about which keys a table has can be made and checked.

  Every numeric literal of the source is an integer, so numbers are \<open>int\<close>. Strings are
  \<open>string\<close>; every string literal of the source is ASCII.
\<close>

text \<open>
  The regular-expression literals of the source use: the anchors \<open>^\<close> and \<open>$\<close>, bracket
  classes (positive and negated) over single characters, ranges and \<open>\s\<close>, an escaped
  literal character, and the quantifier \<open>+\<close> applied to one class. No literal has a flag.
\<close>

datatype cc_item = CRange char char | CChar char | CSpace

datatype re_atom = InClass "cc_item list" | NotInClass "cc_item list" | Literal char

datatype re_term = BOL | EOL | One re_atom | OneOrMore re_atom

type_synonym regexp = "re_term list"

datatype jsval =
    JUndefined
  | JNull
  | JBool bool
  | JNum int
  | JStr string
  | JRegExp regexp
  | JArr "jsval list"
  | JObj "(string \<times> jsval) list"

text \<open>
  \<open>get_own v k\<close> is the own property \<open>k\<close> of \<open>v\<close>: \<open>None\<close> when \<open>v\<close> has no such own
  property. In an object literal that repeats a key the last entry wins. Properties
  inherited from \<open>Object.prototype\<close> are not own properties and are not modelled.
\<close>

fun get_own :: "jsval \<Rightarrow> string \<Rightarrow> jsval option" where
  "get_own (JObj kvs) k = map_of (rev kvs) k"
| "get_own v k = None"

text \<open>\<open>own_keys v\<close>: the own property names of an object, each once.\<close>

fun own_keys :: "jsval \<Rightarrow> string list" where
  "own_keys (JObj kvs) = remdups (map fst kvs)"
| "own_keys v = []"

text \<open>\<open>get_path v [a, b]\<close> is \<open>v.a.b\<close>; \<open>None\<close> when a step has no such own property.\<close>

fun get_path :: "jsval \<Rightarrow> string list \<Rightarrow> jsval option" where
  "get_path v [] = Some v"
| "get_path v (k # ks) = (case get_own v k of None \<Rightarrow> None | Some w \<Rightarrow> get_path w ks)"

text \<open>\<open>elems v\<close>: the elements of an array, in order.\<close>

fun elems :: "jsval \<Rightarrow> jsval list" where
  "elems (JArr vs) = vs"
| "elems v = []"

text \<open>
  \<open>index_by tbl key\<close> is the own-property lookup \<open>tbl[key]\<close> for a key that is a string value
  (the only keys the tables are indexed with: the members of the enumeration constants).
\<close>

fun index_by :: "jsval \<Rightarrow> jsval \<Rightarrow> jsval option" where
  "index_by tbl (JStr k) = get_own tbl k"
| "index_by tbl v = None"

section \<open>Enumeration constants\<close>

text \<open>\<open>organization.js\<close>: \<open>exports.ORGANIZATION_PLANS = ['free', 'pro', 'enterprise'];\<close>\<close>

definition ORGANIZATION_PLANS :: jsval where
  "ORGANIZATION_PLANS = JArr [JStr ''free'', JStr ''pro'', JStr ''enterprise'']"

text \<open>\<open>user.js\<close>\<close>

definition USER_ROLES :: jsval where
  "USER_ROLES = JArr [JStr ''admin'', JStr ''user'']"

definition USER_STATUSES :: jsval where
  "USER_STATUSES = JArr [JStr ''active'', JStr ''suspended'', JStr ''pending'', JStr ''inactive'']"

text \<open>\<open>question.js\<close> (the ES-module and the CommonJS build carry the same literals)\<close>

definition QUESTION_TYPES :: jsval where
  "QUESTION_TYPES = JArr [JStr ''multiple_choice'', JStr ''text'', JStr ''scale'']"

definition QUESTION_VISIBILITY :: jsval where
  "QUESTION_VISIBILITY = JArr [JStr ''live'', JStr ''draft'', JStr ''private'']"

text \<open>\<open>response.js\<close>\<close>

definition RESPONSE_STATUSES :: jsval where
  "RESPONSE_STATUSES = JArr [JStr ''submitted'', JStr ''pending'', JStr ''invalid'']"

section \<open>Default-value tables\<close>

text \<open>\<open>organization.js\<close>, \<open>exports.ORGANIZATION_DEFAULTS\<close>\<close>

definition ORGANIZATION_DEFAULTS :: jsval where
  "ORGANIZATION_DEFAULTS = JObj [
     (''plan'', JStr ''free''),
     (''settings'', JObj [
        (''allow_anonymous_responses'', JBool True),
        (''default_timezone'', JStr ''UTC''),
        (''max_questions'', JNum 10),
        (''max_users'', JNum 5),
        (''analytics_enabled'', JBool False)]),
     (''metadata'', JObj [])]"

text \<open>\<open>user.js\<close>, \<open>exports.USER_DEFAULTS\<close>\<close>

definition USER_DEFAULTS :: jsval where
  "USER_DEFAULTS = JObj [
     (''role'', JStr ''user''),
     (''status'', JStr ''active''),
     (''preferences'', JObj [
        (''timezone'', JStr ''UTC''),
        (''email_notifications'', JBool True),
        (''push_notifications'', JBool False),
        (''language'', JStr ''en''),
        (''show_anonymous_responses'', JBool False),
        (''theme'', JStr ''auto'')]),
     (''metadata'', JObj [])]"

text \<open>\<open>question.js\<close>, \<open>QUESTION_DEFAULTS\<close>\<close>

definition QUESTION_DEFAULTS :: jsval where
  "QUESTION_DEFAULTS = JObj [
     (''allow_multiple'', JBool False),
     (''is_active'', JBool False),
     (''is_anonymous'', JBool False),
     (''visibility'', JStr ''draft''),
     (''tags'', JArr []),
     (''asset_url'', JNull)]"

text \<open>\<open>response.js\<close>, \<open>exports.RESPONSE_DEFAULTS\<close>\<close>

definition RESPONSE_DEFAULTS :: jsval where
  "RESPONSE_DEFAULTS = JObj [
     (''metadata'', JObj []),
     (''text_answer'', JUndefined)]"

section \<open>Policy and limit tables\<close>

text \<open>\<open>organization.js\<close>, \<open>exports.PLAN_LIMITS\<close>\<close>

definition PLAN_LIMITS :: jsval where
  "PLAN_LIMITS = JObj [
     (''free'', JObj [
        (''max_questions'', JNum 10),
        (''max_users'', JNum 5),
        (''analytics_enabled'', JBool False),
        (''custom_branding'', JBool False)]),
     (''pro'', JObj [
        (''max_questions'', JNum 100),
        (''max_users'', JNum 50),
        (''analytics_enabled'', JBool True),
        (''custom_branding'', JBool True)]),
     (''enterprise'', JObj [
        (''max_questions'', JNum (- 1)),
        (''max_users'', JNum (- 1)),
        (''analytics_enabled'', JBool True),
        (''custom_branding'', JBool True)])]"

text \<open>\<open>user.js\<close>, \<open>exports.USER_PERMISSIONS\<close>\<close>

definition USER_PERMISSIONS :: jsval where
  "USER_PERMISSIONS = JObj [
     (''admin'', JObj [
        (''can_create_questions'', JBool True),
        (''can_edit_questions'', JBool True),
        (''can_delete_questions'', JBool True),
        (''can_view_analytics'', JBool True),
        (''can_manage_users'', JBool True),
        (''can_manage_organization'', JBool True),
        (''can_export_data'', JBool True)]),
     (''user'', JObj [
        (''can_create_questions'', JBool False),
        (''can_edit_questions'', JBool False),
        (''can_delete_questions'', JBool False),
        (''can_view_analytics'', JBool False),
        (''can_manage_users'', JBool False),
        (''can_manage_organization'', JBool False),
        (''can_export_data'', JBool False)])]"

section \<open>Regular expressions: \<open>RegExp.prototype.test\<close>\<close>

text \<open>
  Code units are \<open>char\<close>, so the members of \<open>\s\<close> that can occur are tab, line feed,
  vertical tab, form feed, carriage return, space and no-break space (codes 9 to 13, 32
  and 160); the members of \<open>\s\<close> above code 255 are outside this model.
\<close>

fun cc_member :: "cc_item \<Rightarrow> char \<Rightarrow> bool" where
  "cc_member (CRange lo hi) c =
     ((of_char lo :: nat) \<le> of_char c \<and> (of_char c :: nat) \<le> of_char hi)"
| "cc_member (CChar d) c = (c = d)"
| "cc_member CSpace c = ((of_char c :: nat) \<in> set [9, 10, 11, 12, 13, 32, 160])"

fun atom_ok :: "re_atom \<Rightarrow> char \<Rightarrow> bool" where
  "atom_ok (InClass items) c = list_ex (\<lambda>i. cc_member i c) items"
| "atom_ok (NotInClass items) c = (\<not> list_ex (\<lambda>i. cc_member i c) items)"
| "atom_ok (Literal d) c = (c = d)"

text \<open>
  \<open>match_here r at0 s\<close>: the pattern \<open>r\<close> matches a prefix of the rest \<open>s\<close> of the input,
  where \<open>at0\<close> says that \<open>s\<close> is the whole input. Without the \<open>m\<close> flag \<open>^\<close> holds at the
  start of the input only and \<open>$\<close> at its end only. \<open>+\<close> backtracks over every number
  of repetitions from one on.
\<close>

fun match_here :: "regexp \<Rightarrow> bool \<Rightarrow> string \<Rightarrow> bool" where
  "match_here [] at0 s = True"
| "match_here (BOL # r) at0 s = (at0 \<and> match_here r at0 s)"
| "match_here (EOL # r) at0 s = (s = [] \<and> match_here r at0 s)"
| "match_here (One a # r) at0 [] = False"
| "match_here (One a # r) at0 (c # cs) = (atom_ok a c \<and> match_here r False cs)"
| "match_here (OneOrMore a # r) at0 [] = False"
| "match_here (OneOrMore a # r) at0 (c # cs) =
     (atom_ok a c \<and> (match_here (OneOrMore a # r) False cs \<or> match_here r False cs))"

text \<open>\<open>match_from\<close>: a match may start at any position of the input.\<close>

fun match_from :: "regexp \<Rightarrow> bool \<Rightarrow> string \<Rightarrow> bool" where
  "match_from r at0 [] = match_here r at0 []"
| "match_from r at0 (c # cs) = (match_here r at0 (c # cs) \<or> match_from r False cs)"

text \<open>
  \<open>test re s\<close> is \<open>re.test(s)\<close> for a regular expression without flags (so \<open>lastIndex\<close>
  plays no part).
\<close>

fun test :: "jsval \<Rightarrow> string \<Rightarrow> bool" where
  "test (JRegExp r) s = match_from r True s"
| "test v s = False"

section \<open>Validation tables\<close>

text \<open>
  \<open>organization.js\<close>, \<open>exports.ORGANIZATION_VALIDATION\<close>; the slug pattern is the literal
  \<^verbatim>\<open>/^[a-z0-9-]+$/\<close>.
\<close>

definition ORGANIZATION_VALIDATION :: jsval where
  "ORGANIZATION_VALIDATION = JObj [
     (''max_name_length'', JNum 100),
     (''max_slug_length'', JNum 50),
     (''min_slug_length'', JNum 3),
     (''max_metadata_size'', JNum 2048),
     (''slug_pattern'', JRegExp [
        BOL,
        OneOrMore (InClass [CRange CHR ''a'' CHR ''z'', CRange CHR ''0'' CHR ''9'', CChar CHR ''-'']),
        EOL])]"

text \<open>
  \<open>user.js\<close>, \<open>exports.USER_VALIDATION\<close>; the email pattern is the literal
  \<^verbatim>\<open>/^[^\s@]+@[^\s@]+\.[^\s@]+$/\<close>.
\<close>

definition USER_VALIDATION :: jsval where
  "USER_VALIDATION = JObj [
     (''max_name_length'', JNum 100),
     (''max_email_length'', JNum 254),
     (''email_pattern'', JRegExp [
        BOL,
        OneOrMore (NotInClass [CSpace, CChar CHR ''@'']),
        One (Literal CHR ''@''),
        OneOrMore (NotInClass [CSpace, CChar CHR ''@'']),
        One (Literal CHR ''.''),
        OneOrMore (NotInClass [CSpace, CChar CHR ''@'']),
        EOL]),
     (''max_metadata_size'', JNum 1024),
     (''min_password_length'', JNum 8),
     (''max_password_length'', JNum 128)]"

section \<open>Entity shapes\<close>

text \<open>
  The TypeScript declarations are data too: a type expression is a value of \<open>ts_type\<close>,
  an interface being the list of its members, each with its name, whether it carries
  the optional marker \<open>?\<close>, and its type. \<open>TRecord t\<close> is \<open>Record<string, t>\<close>.
\<close>

datatype ts_type =
    TString
  | TNumber
  | TBoolean
  | TNull
  | TAny
  | TLit string
  | TUnion "ts_type list"
  | TArray ts_type
  | TRecord ts_type
  | TObject "(string \<times> bool \<times> ts_type) list"

type_synonym ts_field = "string \<times> bool \<times> ts_type"

definition fname :: "ts_field \<Rightarrow> string" where
  "fname f = fst f"

definition optional :: "ts_field \<Rightarrow> bool" where
  "optional f = fst (snd f)"

definition ftype :: "ts_field \<Rightarrow> ts_type" where
  "ftype f = snd (snd f)"

fun fields :: "ts_type \<Rightarrow> ts_field list" where
  "fields (TObject fs) = fs"
| "fields t = []"

text \<open>
  \<open>conforms t v\<close>: the value \<open>v\<close> is assignable to the type \<open>t\<close>, read structurally and
  with strict null checks: a required member must be an own property of a conforming
  value; an optional member may be absent, or \<open>undefined\<close>, or conforming; members the
  interface does not name are allowed.
\<close>

fun conforms :: "ts_type \<Rightarrow> jsval \<Rightarrow> bool" where
  "conforms TString v = (case v of JStr s \<Rightarrow> True | _ \<Rightarrow> False)"
| "conforms TNumber v = (case v of JNum n \<Rightarrow> True | _ \<Rightarrow> False)"
| "conforms TBoolean v = (case v of JBool b \<Rightarrow> True | _ \<Rightarrow> False)"
| "conforms TNull v = (v = JNull)"
| "conforms TAny v = True"
| "conforms (TLit s) v = (v = JStr s)"
| "conforms (TUnion ts) v = list_ex (\<lambda>t. conforms t v) ts"
| "conforms (TArray t) v = (case v of JArr vs \<Rightarrow> list_all (conforms t) vs | _ \<Rightarrow> False)"
| "conforms (TRecord t) v =
     (case v of
        JObj kvs \<Rightarrow>
          list_all (\<lambda>k. case get_own v k of None \<Rightarrow> False | Some x \<Rightarrow> conforms t x) (own_keys v)
      | _ \<Rightarrow> False)"
| "conforms (TObject fs) v =
     (case v of
        JObj kvs \<Rightarrow>
          list_all (\<lambda>(name, opt, t).
            case get_own v name of
              None \<Rightarrow> opt
            | Some x \<Rightarrow> (opt \<and> x = JUndefined) \<or> conforms t x) fs
      | _ \<Rightarrow> False)"

text \<open>\<open>response.ts\<close>, \<open>export interface Response\<close>\<close>

definition Response :: ts_type where
  "Response = TObject [
     (''id'', False, TString),
     (''organization_id'', False, TString),
     (''question_id'', False, TString),
     (''user_id'', False, TUnion [TString, TNull]),
     (''answer'', False, TArray TString),
     (''text_answer'', True, TString),
     (''submitted_at'', False, TString),
     (''date'', False, TString),
     (''metadata'', True, TRecord TAny)]"

text \<open>\<open>response.ts\<close>: \<open>export type ResponseStatus = 'submitted' | 'pending' | 'invalid';\<close>\<close>

definition ResponseStatus :: ts_type where
  "ResponseStatus = TUnion [TLit ''submitted'', TLit ''pending'', TLit ''invalid'']"

section \<open>Properties\<close>

subsection \<open>Enumerations\<close>

text \<open>
  Claim C3. Each enumeration constant is exactly its documented list of values, in the
  documented order, and no value occurs twice in it: the organization plans are
  free, pro, enterprise; the user roles admin, user; the user statuses active, suspended,
  pending, inactive; the question types multiple_choice, text, scale; the question
  visibilities live, draft, private; the response statuses submitted, pending, invalid.
\<close>

theorem enumerations_exact_and_distinct:
  "elems ORGANIZATION_PLANS = [JStr ''free'', JStr ''pro'', JStr ''enterprise'']
   \<and> distinct (elems ORGANIZATION_PLANS)
   \<and> elems USER_ROLES = [JStr ''admin'', JStr ''user'']
   \<and> distinct (elems USER_ROLES)
   \<and> elems USER_STATUSES = [JStr ''active'', JStr ''suspended'', JStr ''pending'', JStr ''inactive'']
   \<and> distinct (elems USER_STATUSES)
   \<and> elems QUESTION_TYPES = [JStr ''multiple_choice'', JStr ''text'', JStr ''scale'']
   \<and> distinct (elems QUESTION_TYPES)
   \<and> elems QUESTION_VISIBILITY = [JStr ''live'', JStr ''draft'', JStr ''private'']
   \<and> distinct (elems QUESTION_VISIBILITY)
   \<and> elems RESPONSE_STATUSES = [JStr ''submitted'', JStr ''pending'', JStr ''invalid'']
   \<and> distinct (elems RESPONSE_STATUSES)"
  by (simp add: ORGANIZATION_PLANS_def USER_ROLES_def USER_STATUSES_def QUESTION_TYPES_def
      QUESTION_VISIBILITY_def RESPONSE_STATUSES_def)

subsection \<open>Lookups in the tables\<close>

text \<open>
  Claim C1. The plan-limits table has an entry for each plan tier of the enumeration of
  plans, the free entry has max_questions 10, max_users 5, analytics_enabled false and
  custom_branding false, and the enterprise entry has max_questions -1 and max_users -1.
\<close>

theorem plan_limits_entries:
  "list_all (\<lambda>p. index_by PLAN_LIMITS p \<noteq> None) (elems ORGANIZATION_PLANS)
   \<and> length (elems ORGANIZATION_PLANS) = 3
   \<and> get_path PLAN_LIMITS [''free'', ''max_questions''] = Some (JNum 10)
   \<and> get_path PLAN_LIMITS [''free'', ''max_users''] = Some (JNum 5)
   \<and> get_path PLAN_LIMITS [''free'', ''analytics_enabled''] = Some (JBool False)
   \<and> get_path PLAN_LIMITS [''free'', ''custom_branding''] = Some (JBool False)
   \<and> get_path PLAN_LIMITS [''enterprise'', ''max_questions''] = Some (JNum (- 1))
   \<and> get_path PLAN_LIMITS [''enterprise'', ''max_users''] = Some (JNum (- 1))"
  by (simp add: PLAN_LIMITS_def ORGANIZATION_PLANS_def)

text \<open>
  Claim C2. The default-value tables hold the documented literals: the default
  organization plan is free, the default user role is user and the default user status
  is active, the default question visibility is draft and the default question tags are
  the empty array.
\<close>

theorem default_tables_literals:
  "get_path ORGANIZATION_DEFAULTS [''plan''] = Some (JStr ''free'')
   \<and> get_path USER_DEFAULTS [''role''] = Some (JStr ''user'')
   \<and> get_path USER_DEFAULTS [''status''] = Some (JStr ''active'')
   \<and> get_path QUESTION_DEFAULTS [''visibility''] = Some (JStr ''draft'')
   \<and> get_path QUESTION_DEFAULTS [''tags''] = Some (JArr [])"
  by (simp add: ORGANIZATION_DEFAULTS_def USER_DEFAULTS_def QUESTION_DEFAULTS_def)

text \<open>
  Claim C9. The default organization settings agree with the limits of the free plan,
  the default plan: max_questions, max_users and analytics_enabled are present in both
  and have the same value in both.
\<close>

theorem default_settings_agree_with_free_plan:
  "get_path ORGANIZATION_DEFAULTS [''plan''] = Some (JStr ''free'')
   \<and> get_path ORGANIZATION_DEFAULTS [''settings'', ''max_questions'']
       = get_path PLAN_LIMITS [''free'', ''max_questions'']
   \<and> get_path PLAN_LIMITS [''free'', ''max_questions''] \<noteq> None
   \<and> get_path ORGANIZATION_DEFAULTS [''settings'', ''max_users'']
       = get_path PLAN_LIMITS [''free'', ''max_users'']
   \<and> get_path PLAN_LIMITS [''free'', ''max_users''] \<noteq> None
   \<and> get_path ORGANIZATION_DEFAULTS [''settings'', ''analytics_enabled'']
       = get_path PLAN_LIMITS [''free'', ''analytics_enabled'']
   \<and> get_path PLAN_LIMITS [''free'', ''analytics_enabled''] \<noteq> None"
  by (simp add: ORGANIZATION_DEFAULTS_def PLAN_LIMITS_def)

text \<open>
  Claim C10. The role-to-permission table is all-or-nothing: each of the seven flags
  can_create_questions, can_edit_questions, can_delete_questions, can_view_analytics,
  can_manage_users, can_manage_organization and can_export_data is true in the admin
  entry and false in the user entry, and each of the two entries has exactly these seven
  keys.
\<close>

theorem user_permissions_all_or_nothing:
  "map (\<lambda>f. get_path USER_PERMISSIONS [''admin'', f])
      [''can_create_questions'', ''can_edit_questions'', ''can_delete_questions'',
       ''can_view_analytics'', ''can_manage_users'', ''can_manage_organization'',
       ''can_export_data'']
     = replicate 7 (Some (JBool True))
   \<and> map (\<lambda>f. get_path USER_PERMISSIONS [''user'', f])
      [''can_create_questions'', ''can_edit_questions'', ''can_delete_questions'',
       ''can_view_analytics'', ''can_manage_users'', ''can_manage_organization'',
       ''can_export_data'']
     = replicate 7 (Some (JBool False))
   \<and> map_option own_keys (get_own USER_PERMISSIONS ''admin'')
     = Some [''can_create_questions'', ''can_edit_questions'', ''can_delete_questions'',
       ''can_view_analytics'', ''can_manage_users'', ''can_manage_organization'',
       ''can_export_data'']
   \<and> map_option own_keys (get_own USER_PERMISSIONS ''user'')
     = Some [''can_create_questions'', ''can_edit_questions'', ''can_delete_questions'',
       ''can_view_analytics'', ''can_manage_users'', ''can_manage_organization'',
       ''can_export_data'']"
  by (simp add: USER_PERMISSIONS_def numeral_eq_Suc)

text \<open>
  Claim C7. The policy tables are total over their enumerations and have nothing else:
  every plan of the enumeration of plans has an entry in the plan-limits table, every
  role of the enumeration of roles has an entry in the permissions table, and a key that
  has an entry (an own property) in either table is a member of the table's enumeration:
  the own-property lookup with any other key finds nothing.
\<close>

theorem policy_tables_total_and_closed:
  "(\<forall>p \<in> set (elems ORGANIZATION_PLANS). index_by PLAN_LIMITS p \<noteq> None)
   \<and> (\<forall>r \<in> set (elems USER_ROLES). index_by USER_PERMISSIONS r \<noteq> None)
   \<and> (\<forall>k. get_own PLAN_LIMITS k \<noteq> None \<longrightarrow> JStr k \<in> set (elems ORGANIZATION_PLANS))
   \<and> (\<forall>k. get_own USER_PERMISSIONS k \<noteq> None \<longrightarrow> JStr k \<in> set (elems USER_ROLES))"
  by (simp add: PLAN_LIMITS_def ORGANIZATION_PLANS_def USER_PERMISSIONS_def USER_ROLES_def)

theorem policy_tables_total_and_closed_witness:
  "JStr ''enterprise'' \<in> set (elems ORGANIZATION_PLANS)
   \<and> index_by PLAN_LIMITS (JStr ''enterprise'') \<noteq> None
   \<and> JStr ''admin'' \<in> set (elems USER_ROLES)
   \<and> index_by USER_PERMISSIONS (JStr ''admin'') \<noteq> None
   \<and> JStr ''premium'' \<notin> set (elems ORGANIZATION_PLANS)
   \<and> get_own PLAN_LIMITS ''premium'' = None
   \<and> JStr ''guest'' \<notin> set (elems USER_ROLES)
   \<and> get_own USER_PERMISSIONS ''guest'' = None"
proof -
  have e: "JStr ''enterprise'' \<in> set (elems ORGANIZATION_PLANS)"
    by (simp add: ORGANIZATION_PLANS_def)
  have a: "JStr ''admin'' \<in> set (elems USER_ROLES)"
    by (simp add: USER_ROLES_def)
  have p: "JStr ''premium'' \<notin> set (elems ORGANIZATION_PLANS)"
    by (simp add: ORGANIZATION_PLANS_def)
  have g: "JStr ''guest'' \<notin> set (elems USER_ROLES)"
    by (simp add: USER_ROLES_def)
  from policy_tables_total_and_closed e
  have 1: "index_by PLAN_LIMITS (JStr ''enterprise'') \<noteq> None" by blast
  from policy_tables_total_and_closed a
  have 2: "index_by USER_PERMISSIONS (JStr ''admin'') \<noteq> None" by blast
  from policy_tables_total_and_closed p
  have 3: "get_own PLAN_LIMITS ''premium'' = None" by blast
  from policy_tables_total_and_closed g
  have 4: "get_own USER_PERMISSIONS ''guest'' = None" by blast
  from e a p g 1 2 3 4 show ?thesis by blast
qed

subsection \<open>Patterns\<close>

lemma match_from_BOL_later: "\<not> match_from (BOL # r) False s"
  by (induction s) simp_all

lemma match_here_plus_EOL:
  "match_here [OneOrMore a, EOL] b s \<longleftrightarrow> s \<noteq> [] \<and> list_all (atom_ok a) s"
proof (induction s arbitrary: b)
  case Nil
  show ?case by simp
next
  case (Cons c cs)
  then show ?case by (cases cs) auto
qed

lemma test_anchored_class_plus:
  "test (JRegExp [BOL, OneOrMore a, EOL]) s \<longleftrightarrow> s \<noteq> [] \<and> list_all (atom_ok a) s"
proof (cases s)
  case Nil
  then show ?thesis by simp
next
  case (Cons c cs)
  have "match_from [BOL, OneOrMore a, EOL] True (c # cs)
        = match_here [OneOrMore a, EOL] True (c # cs)"
    using match_from_BOL_later [of "[OneOrMore a, EOL]" cs] by simp
  with Cons show ?thesis
    using match_here_plus_EOL [of a True "c # cs"] by simp
qed

text \<open>
  The slug pattern accepts exactly the non-empty strings of lower-case ASCII letters,
  digits and hyphens.
\<close>

lemma slug_pattern_accepts_iff:
  "map_option (\<lambda>re. test re s) (get_own ORGANIZATION_VALIDATION ''slug_pattern'')
   = Some (s \<noteq> [] \<and> list_all (atom_ok (InClass
        [CRange CHR ''a'' CHR ''z'', CRange CHR ''0'' CHR ''9'', CChar CHR ''-''])) s)"
  by (simp add: ORGANIZATION_VALIDATION_def test_anchored_class_plus del: test.simps)

text \<open>
  Claim C4. The slug pattern of the organization validation table matches "acme-corp"
  and does not match "Acme Corp!"; the email pattern of the user validation table
  matches "a@b.co" and does not match "a@b".
\<close>

theorem patterns_on_documented_examples:
  "map_option (\<lambda>re. test re ''acme-corp'') (get_own ORGANIZATION_VALIDATION ''slug_pattern'')
     = Some True
   \<and> map_option (\<lambda>re. test re ''Acme Corp!'') (get_own ORGANIZATION_VALIDATION ''slug_pattern'')
     = Some False
   \<and> map_option (\<lambda>re. test re ''a@b.co'') (get_own USER_VALIDATION ''email_pattern'')
     = Some True
   \<and> map_option (\<lambda>re. test re ''a@b'') (get_own USER_VALIDATION ''email_pattern'')
     = Some False"
  by (simp add: ORGANIZATION_VALIDATION_def USER_VALIDATION_def)

subsection \<open>The shape of a response\<close>

text \<open>
  Claim C5. The declared shape of a response has no status member (no member is named
  status and no member has the type of response statuses), while the type of response
  statuses and the constant listing them are declared separately, with exactly the
  values submitted, pending and invalid.
\<close>

theorem response_shape_has_no_status:
  "''status'' \<notin> set (map fname (fields Response))
   \<and> ResponseStatus \<notin> set (map ftype (fields Response))
   \<and> ResponseStatus = TUnion [TLit ''submitted'', TLit ''pending'', TLit ''invalid'']
   \<and> elems RESPONSE_STATUSES = [JStr ''submitted'', JStr ''pending'', JStr ''invalid'']"
  by (simp add: Response_def ResponseStatus_def RESPONSE_STATUSES_def fname_def ftype_def)

text \<open>
  Claim C6. In the declared shape of a response the member user_id is required and
  nullable: it is declared without the optional marker, with the type string or null,
  and every value that conforms to the shape has an own property user_id whose value is
  a string or null; a value that omits it does not conform.
\<close>

theorem response_user_id_required_nullable:
  "(''user_id'', False, TUnion [TString, TNull]) \<in> set (fields Response)
   \<and> (\<forall>v. conforms Response v \<longrightarrow>
         (\<exists>u. get_own v ''user_id'' = Some u \<and> (u = JNull \<or> (\<exists>s. u = JStr s))))"
proof (intro conjI allI impI)
  show "(''user_id'', False, TUnion [TString, TNull]) \<in> set (fields Response)"
    by (simp add: Response_def)
next
  fix v
  assume "conforms Response v"
  then show "\<exists>u. get_own v ''user_id'' = Some u \<and> (u = JNull \<or> (\<exists>s. u = JStr s))"
    by (cases v) (auto simp: Response_def split: option.splits jsval.splits)
qed

theorem response_user_id_required_nullable_witness:
  "conforms Response (JObj [
      (''id'', JStr ''r-1''), (''organization_id'', JStr ''org-1''),
      (''question_id'', JStr ''q-1''), (''user_id'', JNull),
      (''answer'', JArr [JStr ''yes'']),
      (''submitted_at'', JStr ''2024-01-01T00:00:00Z''), (''date'', JStr ''2024-01-01'')])
   \<and> (\<exists>u. get_own (JObj [
      (''id'', JStr ''r-1''), (''organization_id'', JStr ''org-1''),
      (''question_id'', JStr ''q-1''), (''user_id'', JNull),
      (''answer'', JArr [JStr ''yes'']),
      (''submitted_at'', JStr ''2024-01-01T00:00:00Z''), (''date'', JStr ''2024-01-01'')])
        ''user_id'' = Some u \<and> (u = JNull \<or> (\<exists>s. u = JStr s)))"
proof -
  let ?r = "JObj [
      (''id'', JStr ''r-1''), (''organization_id'', JStr ''org-1''),
      (''question_id'', JStr ''q-1''), (''user_id'', JNull),
      (''answer'', JArr [JStr ''yes'']),
      (''submitted_at'', JStr ''2024-01-01T00:00:00Z''), (''date'', JStr ''2024-01-01'')]"
  have c: "conforms Response ?r"
    by (simp add: Response_def)
  from response_user_id_required_nullable c
  have "\<exists>u. get_own ?r ''user_id'' = Some u \<and> (u = JNull \<or> (\<exists>s. u = JStr s))"
    by blast
  with c show ?thesis by blast
qed

lemma response_without_user_id_rejected:
  "\<not> conforms Response (JObj [
      (''id'', JStr ''r-1''), (''organization_id'', JStr ''org-1''),
      (''question_id'', JStr ''q-1''),
      (''answer'', JArr [JStr ''yes'']),
      (''submitted_at'', JStr ''2024-01-01T00:00:00Z''), (''date'', JStr ''2024-01-01'')])"
  by (simp add: Response_def)

lemma response_with_undefined_user_id_rejected:
  "\<not> conforms Response (JObj [
      (''id'', JStr ''r-1''), (''organization_id'', JStr ''org-1''),
      (''question_id'', JStr ''q-1''), (''user_id'', JUndefined),
      (''answer'', JArr [JStr ''yes'']),
      (''submitted_at'', JStr ''2024-01-01T00:00:00Z''), (''date'', JStr ''2024-01-01'')])"
  by (simp add: Response_def)

end
